theory Spec2Isabelle
  imports Complex_Main "HOL-Library.Multiset"
begin

section \<open>Segmentation notebook: the RFM aggregator\<close>

text \<open>
  A row of \<^verbatim>\<open>customers.csv\<close> after \<^verbatim>\<open>pd.to_datetime\<close> has parsed the date column.
  A row is a complete transaction record: each of its four fields holds a value.
  A timestamp is a count of nanoseconds since the epoch, which is what a pandas
  \<^verbatim>\<open>Timestamp\<close> holds; order values are numbers, taken as reals (rounding of the
  floating-point sum is not modelled). The customer key is any ordered type.
\<close>

record 'c transaction =
  CustomerID :: 'c
  OrderDate :: int
  OrderID :: nat
  OrderValue :: real

text \<open>The three aggregated columns of \<^verbatim>\<open>rfm_df\<close>; the customer key is the index.\<close>

record rfm =
  Recency :: int
  Frequency :: nat
  Monetary :: real

definition ns_per_day :: int where
  "ns_per_day = 86400 * 1000000000"

text \<open>\<^verbatim>\<open>dt.timedelta(days=n)\<close> as a nanosecond count.\<close>

definition timedelta_days :: "int \<Rightarrow> int" where
  "timedelta_days n = n * ns_per_day"

text \<open>
  The \<^verbatim>\<open>.days\<close> field of a time difference: whole days, rounded towards minus
  infinity (\<open>div\<close> on \<open>int\<close> rounds the same way).
\<close>

definition days :: "int \<Rightarrow> int" where
  "days td = td div ns_per_day"

text \<open>\<^verbatim>\<open>Series.max()\<close> of a column that has at least one value.\<close>

fun series_max :: "int \<Rightarrow> int list \<Rightarrow> int" where
  "series_max x [] = x"
| "series_max x (y # ys) = series_max (max x y) ys"

text \<open>
  \<^verbatim>\<open>snapshot_date = df['OrderDate'].max() + dt.timedelta(days=1)\<close>, for a frame
  \<open>t # ts\<close> with at least one row.
\<close>

definition snapshot_date :: "'c transaction \<Rightarrow> 'c transaction list \<Rightarrow> int" where
  "snapshot_date t ts = series_max (OrderDate t) (map OrderDate ts) + timedelta_days 1"

text \<open>
  \<^verbatim>\<open>df.groupby('CustomerID')\<close>: the group keys are the distinct customer ids in
  ascending order, and a group holds the rows of its key in frame order.
\<close>

definition group_keys :: "('c::linorder) transaction list \<Rightarrow> 'c list" where
  "group_keys df = sort (remdups (map CustomerID df))"

definition group_rows :: "'c transaction list \<Rightarrow> 'c \<Rightarrow> 'c transaction list" where
  "group_rows df k = filter (\<lambda>t. CustomerID t = k) df"

text \<open>
  The three aggregations of one group: the lambda on \<^verbatim>\<open>OrderDate\<close>,
  \<^verbatim>\<open>'count'\<close> on \<^verbatim>\<open>OrderID\<close> and \<^verbatim>\<open>'sum'\<close> on \<^verbatim>\<open>OrderValue\<close>.
  A group is never empty; the empty case is written out only to make the function total.
\<close>

definition agg_group :: "int \<Rightarrow> 'c transaction list \<Rightarrow> rfm" where
  "agg_group snap g =
     \<lparr> Recency = (case map OrderDate g of
                     [] \<Rightarrow> 0
                   | d # ds \<Rightarrow> days (snap - series_max d ds)),
       Frequency = length (map OrderID g),
       Monetary = sum_list (map OrderValue g) \<rparr>"

text \<open>
  The whole cell: \<^verbatim>\<open>rfm_df\<close> as the list of (index, row) pairs. An empty frame has
  no groups, so no row is aggregated.
\<close>

definition rfm_df :: "('c::linorder) transaction list \<Rightarrow> ('c \<times> rfm) list" where
  "rfm_df df =
     (case df of
        [] \<Rightarrow> []
      | t # ts \<Rightarrow>
          map (\<lambda>k. (k, agg_group (snapshot_date t ts) (group_rows df k))) (group_keys df))"

section \<open>Segmentation notebook: log transform and scaling\<close>

text \<open>
  \<^verbatim>\<open>np.log1p\<close> and its inverse \<^verbatim>\<open>np.expm1\<close> over the reals. \<^verbatim>\<open>log1p\<close> is a
  number only above \<open>-1\<close>; the RFM columns it is applied to hold day counts, order
  counts and order totals.
\<close>

definition log1p :: "real \<Rightarrow> real" where
  "log1p x = ln (1 + x)"

definition expm1 :: "real \<Rightarrow> real" where
  "expm1 y = exp y - 1"

text \<open>A row of the numeric frames \<^verbatim>\<open>rfm_log\<close> and \<^verbatim>\<open>rfm_scaled\<close>.\<close>

record rfm_row =
  R :: real
  F :: real
  M :: real

text \<open>\<^verbatim>\<open>rfm_df\<close> read as a numeric frame (the integer columns become floats).\<close>

definition rfm_values :: "('c \<times> rfm) list \<Rightarrow> rfm_row list" where
  "rfm_values df =
     map (\<lambda>(k, r). \<lparr> R = real_of_int (Recency r), F = real (Frequency r), M = Monetary r \<rparr>) df"

text \<open>\<^verbatim>\<open>rfm_log = np.log1p(rfm_df)\<close>, elementwise.\<close>

definition rfm_log :: "('c \<times> rfm) list \<Rightarrow> rfm_row list" where
  "rfm_log df = map (\<lambda>v. \<lparr> R = log1p (R v), F = log1p (F v), M = log1p (M v) \<rparr>) (rfm_values df)"

text \<open>
  \<^verbatim>\<open>StandardScaler\<close>: per column the mean and the population standard deviation
  (divisor \<open>n\<close>); a column whose deviation is zero is divided by one instead
  (the scaler's \<^verbatim>\<open>scale_\<close>).
\<close>

definition mean :: "real list \<Rightarrow> real" where
  "mean xs = sum_list xs / real (length xs)"

definition var :: "real list \<Rightarrow> real" where
  "var xs = mean (map (\<lambda>x. (x - mean xs)\<^sup>2) xs)"

definition std :: "real list \<Rightarrow> real" where
  "std xs = sqrt (var xs)"

definition scale :: "real list \<Rightarrow> real" where
  "scale xs = (if std xs = 0 then 1 else std xs)"

definition standardize :: "real list \<Rightarrow> real \<Rightarrow> real" where
  "standardize col x = (x - mean col) / scale col"

definition fit_transform :: "rfm_row list \<Rightarrow> rfm_row list" where
  "fit_transform X =
     map (\<lambda>v. \<lparr> R = standardize (map R X) (R v),
                 F = standardize (map F X) (F v),
                 M = standardize (map M X) (M v) \<rparr>) X"

definition rfm_scaled :: "('c \<times> rfm) list \<Rightarrow> rfm_row list" where
  "rfm_scaled df = fit_transform (rfm_log df)"

text \<open>
  The inverse the specification describes (the notebook itself never inverts the
  scaling): multiply by the column's standard deviation, add the column's mean, then
  apply \<^verbatim>\<open>expm1\<close>. The columns are those of the frame that was fitted, \<^verbatim>\<open>rfm_log\<close>.
\<close>

definition destandardize :: "real list \<Rightarrow> real \<Rightarrow> real" where
  "destandardize col z = z * std col + mean col"

definition spec_inverse :: "rfm_row list \<Rightarrow> rfm_row \<Rightarrow> rfm_row" where
  "spec_inverse X z =
     \<lparr> R = expm1 (destandardize (map R X) (R z)),
       F = expm1 (destandardize (map F X) (F z)),
       M = expm1 (destandardize (map M X) (M z)) \<rparr>"

section \<open>Segmentation notebook: the segment labeler\<close>

text \<open>
  A row of \<^verbatim>\<open>cluster_profile\<close> (already rounded to two decimals); the index is the
  cluster id. The frame is the list of (index, row) pairs.
\<close>

record profile_row =
  Recency_mean :: real
  Frequency_mean :: real
  Monetary_mean :: real
  Monetary_count :: nat

datatype py_error = IndexError

text \<open>
  \<^verbatim>\<open>sort_values(by=col, ascending=...)\<close>. What is known of the library's sort, and all
  that is used of it: the result holds the same rows, and the key column is in order,
  non-decreasing when ascending and non-increasing otherwise. The order among rows with
  equal keys is the library's choice (its default sort is not stable), so the sort is a
  parameter of the labeler and \<open>is_sort_values\<close> states what it may be assumed to do.
\<close>

definition is_sort_values ::
  "(('r \<Rightarrow> real) \<Rightarrow> bool \<Rightarrow> ('i \<times> 'r) list \<Rightarrow> ('i \<times> 'r) list) \<Rightarrow> bool" where
  "is_sort_values sort_values \<longleftrightarrow>
     (\<forall>col ascending df.
        mset (sort_values col ascending df) = mset df
      \<and> sorted (map (\<lambda>p. col (snd p))
                (if ascending then sort_values col ascending df
                 else rev (sort_values col ascending df))))"

text \<open>
  One sort of that kind, for evaluating concrete profiles: rows with equal keys keep
  their frame order in both directions.
\<close>

definition stable_sort_values ::
  "('r \<Rightarrow> real) \<Rightarrow> bool \<Rightarrow> ('i \<times> 'r) list \<Rightarrow> ('i \<times> 'r) list" where
  "stable_sort_values col ascending df =
     (if ascending then sort_key (\<lambda>p. col (snd p)) df
      else rev (sort_key (\<lambda>p. col (snd p)) (rev df)))"

text \<open>\<^verbatim>\<open>frame.index[i]\<close> for \<open>i \<ge> 0\<close>; out of range raises \<^verbatim>\<open>IndexError\<close>.\<close>

definition index_at :: "('i \<times> 'r) list \<Rightarrow> nat \<Rightarrow> py_error + 'i" where
  "index_at df i = (if i < length df then Inr (fst (df ! i)) else Inl IndexError)"

text \<open>
  The dictionary display \<^verbatim>\<open>segment_map = {...}\<close>: the four keys are evaluated in order,
  and a key that occurs twice keeps the value written last.
\<close>

definition segment_map ::
  "((profile_row \<Rightarrow> real) \<Rightarrow> bool \<Rightarrow> (nat \<times> profile_row) list \<Rightarrow> (nat \<times> profile_row) list)
     \<Rightarrow> (nat \<times> profile_row) list \<Rightarrow> py_error + (nat \<rightharpoonup> string)" where
  "segment_map sort_values cluster_profile =
     (case index_at (sort_values Recency_mean True cluster_profile) 0 of
        Inl e \<Rightarrow> Inl e
      | Inr k0 \<Rightarrow>
     (case index_at (sort_values Recency_mean True cluster_profile) 1 of
        Inl e \<Rightarrow> Inl e
      | Inr k1 \<Rightarrow>
     (case index_at (sort_values Frequency_mean False cluster_profile) 2 of
        Inl e \<Rightarrow> Inl e
      | Inr k2 \<Rightarrow>
     (case index_at (sort_values Frequency_mean False cluster_profile) 3 of
        Inl e \<Rightarrow> Inl e
      | Inr k3 \<Rightarrow>
          Inr (Map.empty(k0 \<mapsto> ''Champions'', k1 \<mapsto> ''Loyal Customers'',
                         k2 \<mapsto> ''At-Risk'', k3 \<mapsto> ''Hibernating''))))))"

text \<open>
  \<^verbatim>\<open>rfm_df['Cluster'].map(segment_map)\<close>: a cluster id that is not a key of the
  dictionary gets a missing value (\<open>None\<close>), without an error.
\<close>

definition segment_column ::
  "((profile_row \<Rightarrow> real) \<Rightarrow> bool \<Rightarrow> (nat \<times> profile_row) list \<Rightarrow> (nat \<times> profile_row) list)
     \<Rightarrow> (nat \<times> profile_row) list \<Rightarrow> nat list \<Rightarrow> py_error + string option list" where
  "segment_column sort_values cluster_profile clusters =
     (case segment_map sort_values cluster_profile of
        Inl e \<Rightarrow> Inl e
      | Inr m \<Rightarrow> Inr (map m clusters))"

section \<open>Churn notebook: the cleaner\<close>

text \<open>
  A cell of the frame read from \<^verbatim>\<open>telco_churn.csv\<close>: text, a number, or the
  missing value pandas writes for an empty field.
\<close>

datatype cell = Str string | Num real | NaN

text \<open>
  \<^verbatim>\<open>pd.to_numeric(..., errors='coerce')\<close> on one cell. How text is read as a number
  is the library's business, so the reader of text is a parameter: it returns
  \<open>None\<close> for text that is no number, and that is what coercion turns into a missing
  value.
\<close>

definition to_numeric :: "(string \<Rightarrow> real option) \<Rightarrow> cell \<Rightarrow> real option" where
  "to_numeric parse c = (case c of Str s \<Rightarrow> parse s | Num x \<Rightarrow> Some x | NaN \<Rightarrow> None)"

text \<open>
  \<^verbatim>\<open>Series.median()\<close>: missing values are skipped; the median of the remaining
  values is the middle one, or the mean of the two middle ones; with no value left the
  result is the missing value.
\<close>

definition dropna :: "real option list \<Rightarrow> real list" where
  "dropna col = List.map_filter id col"

definition median :: "real option list \<Rightarrow> real option" where
  "median col =
     (let s = sort (dropna col); n = length s in
      if n = 0 then None
      else if odd n then Some (s ! (n div 2))
      else Some ((s ! (n div 2 - 1) + s ! (n div 2)) / 2))"

text \<open>\<^verbatim>\<open>Series.fillna(value)\<close>; filling with the missing value changes nothing.\<close>

definition fillna :: "real option \<Rightarrow> real option list \<Rightarrow> real option list" where
  "fillna v col = map (\<lambda>c. case c of None \<Rightarrow> v | Some x \<Rightarrow> Some x) col"

text \<open>
  The three statements on \<^verbatim>\<open>TotalCharges\<close>: coerce and assign, take the median, and
  \<^verbatim>\<open>df['TotalCharges'].fillna(median_total_charges, inplace=True)\<close>.
  The last one fills, in place, the object that \<^verbatim>\<open>df['TotalCharges']\<close> returns.
  Whether that object is the frame's own column depends on the pandas that runs the
  notebook, and the repository fixes none. Without Copy-on-Write (the default before
  pandas 3.0) it is the frame's column, and the fill reaches the frame. With
  Copy-on-Write (pandas 3.0 and later, or the option \<^verbatim>\<open>mode.copy_on_write\<close>) it is a
  temporary: the fill changes the temporary only, and the frame keeps the coerced
  column with its missing values. \<open>copy_on_write\<close> says which of the two is running.
\<close>

definition median_total_charges :: "(string \<Rightarrow> real option) \<Rightarrow> cell list \<Rightarrow> real option" where
  "median_total_charges parse col = median (map (to_numeric parse) col)"

definition clean_TotalCharges ::
  "bool \<Rightarrow> (string \<Rightarrow> real option) \<Rightarrow> cell list \<Rightarrow> real option list" where
  "clean_TotalCharges copy_on_write parse col =
     (let coerced = map (to_numeric parse) col;
          filled = fillna (median_total_charges parse col) coerced
      in if copy_on_write then coerced else filled)"

text \<open>\<^verbatim>\<open>lambda x: 1 if x == 'Yes' else 0\<close>, applied to every cell of \<^verbatim>\<open>Churn\<close>.\<close>

definition churn_flag :: "cell \<Rightarrow> nat" where
  "churn_flag x = (if x = Str ''Yes'' then 1 else 0)"

definition clean_Churn :: "cell list \<Rightarrow> nat list" where
  "clean_Churn col = map churn_flag col"

text \<open>
  The frame before and after the cleaning cell, as columns. \<open>features\<close> stands for
  the columns the cell does not touch; \<^verbatim>\<open>customerID\<close> is dropped.
\<close>

record 'f churn_frame =
  customerID :: "cell list"
  TotalCharges :: "cell list"
  Churn :: "cell list"
  features :: 'f

record 'f cleaned_frame =
  TotalCharges_clean :: "real option list"
  Churn_clean :: "nat list"
  features_clean :: 'f

definition clean ::
  "bool \<Rightarrow> (string \<Rightarrow> real option) \<Rightarrow> 'f churn_frame \<Rightarrow> 'f cleaned_frame" where
  "clean copy_on_write parse df =
     \<lparr> TotalCharges_clean = clean_TotalCharges copy_on_write parse (TotalCharges df),
       Churn_clean = clean_Churn (Churn df),
       features_clean = features df \<rparr>"

section \<open>Churn notebook: the risk tier\<close>

text \<open>
  \<^verbatim>\<open>assign_risk_tier(score)\<close>. The score is a probability; both thresholds, 0.75 and
  0.50, are exact binary fractions, so comparing reals is comparing the floats.
\<close>

definition assign_risk_tier :: "real \<Rightarrow> string" where
  "assign_risk_tier score =
     (if score > 0.75 then ''High Risk''
      else if score > 0.50 then ''Medium Risk''
      else ''Low Risk'')"

section \<open>Properties of the RFM aggregator\<close>

lemma series_max_fold: "series_max x ys = fold max ys x"
  by (induction ys arbitrary: x) (simp_all add: max.commute)

lemma series_max_Max: "series_max x ys = Max (insert x (set ys))"
  using Max.set_eq_fold [of x ys] by (simp add: series_max_fold)

lemma snapshot_date_Max:
  "snapshot_date t ts = Max (OrderDate ` set (t # ts)) + ns_per_day"
  by (simp add: snapshot_date_def series_max_Max timedelta_days_def)

lemma set_group_keys: "set (group_keys df) = CustomerID ` set df"
  by (simp add: group_keys_def)

lemma distinct_group_keys: "distinct (group_keys df)"
  by (simp add: group_keys_def)

lemma map_fst_rfm_df: "map fst (rfm_df df) = group_keys df"
  by (cases df) (simp_all add: rfm_df_def group_keys_def comp_def)

lemma rfm_df_entry:
  assumes "(k, r) \<in> set (rfm_df df)"
  shows "\<exists>t ts. df = t # ts \<and> k \<in> CustomerID ` set df
           \<and> r = agg_group (snapshot_date t ts) (group_rows df k)"
  using assms by (cases df) (auto simp: rfm_df_def set_group_keys)

lemma group_rows_nonempty:
  "k \<in> CustomerID ` set df \<Longrightarrow> group_rows df k \<noteq> []"
  by (auto simp: group_rows_def filter_empty_conv)

lemma agg_group_recency:
  assumes "g \<noteq> []"
  shows "Recency (agg_group snap g) = (snap - Max (OrderDate ` set g)) div ns_per_day"
proof -
  from assms obtain u us where g: "g = u # us" by (cases g) auto
  show ?thesis by (simp add: g agg_group_def days_def series_max_Max)
qed

lemma group_max_le:
  assumes "k \<in> CustomerID ` set df"
  shows "Max (OrderDate ` {u \<in> set df. CustomerID u = k}) \<le> Max (OrderDate ` set df)"
proof (rule Max_mono)
  show "OrderDate ` {u \<in> set df. CustomerID u = k} \<subseteq> OrderDate ` set df" by auto
  show "OrderDate ` {u \<in> set df. CustomerID u = k} \<noteq> {}" using assms by auto
  show "finite (OrderDate ` set df)" by simp
qed

lemma recency_entry:
  assumes "(k, r) \<in> set (rfm_df df)"
  shows "Recency r = (Max (OrderDate ` set df) + ns_per_day
                       - Max (OrderDate ` {u \<in> set df. CustomerID u = k})) div ns_per_day"
proof -
  from assms obtain t ts where df: "df = t # ts" and k: "k \<in> CustomerID ` set df"
    and r: "r = agg_group (snapshot_date t ts) (group_rows df k)"
    using rfm_df_entry by blast
  have "set (group_rows df k) = {u \<in> set df. CustomerID u = k}"
    by (auto simp: group_rows_def)
  with group_rows_nonempty[OF k] show ?thesis
    unfolding r by (simp add: agg_group_recency snapshot_date_Max df)
qed

lemma ns_per_day_pos: "0 < ns_per_day"
  by (simp add: ns_per_day_def)

lemma div_day_ge_1: "0 \<le> d \<Longrightarrow> 1 \<le> (d + ns_per_day) div ns_per_day"
  using ns_per_day_pos by (simp add: pos_imp_zdiv_nonneg_iff)

text \<open>
  Claim C3. For every sequence of transaction records, \<^verbatim>\<open>rfm_df\<close> has exactly one
  row per distinct customer id of the input: its index has no repetition and is the set
  of customer ids that occur. In each row, Frequency is the number of that customer's
  transactions and Monetary is the sum of their order values.
\<close>

theorem rfm_df_one_record_per_customer:
  "distinct (map fst (rfm_df df))
   \<and> set (map fst (rfm_df df)) = CustomerID ` set df
   \<and> (\<forall>(k, r) \<in> set (rfm_df df).
         Frequency r = length (filter (\<lambda>t. CustomerID t = k) df)
       \<and> Monetary r = sum_list (map OrderValue (filter (\<lambda>t. CustomerID t = k) df)))"
proof (intro conjI)
  show "distinct (map fst (rfm_df df))"
    by (simp only: map_fst_rfm_df distinct_group_keys)
  show "set (map fst (rfm_df df)) = CustomerID ` set df"
    by (simp only: map_fst_rfm_df set_group_keys)
  show "\<forall>(k, r) \<in> set (rfm_df df).
         Frequency r = length (filter (\<lambda>t. CustomerID t = k) df)
       \<and> Monetary r = sum_list (map OrderValue (filter (\<lambda>t. CustomerID t = k) df))"
  proof (clarify)
    fix k r assume "(k, r) \<in> set (rfm_df df)"
    then obtain t ts where "df = t # ts"
      and "r = agg_group (snapshot_date t ts) (group_rows df k)"
      using rfm_df_entry by blast
    then show "Frequency r = length (filter (\<lambda>t. CustomerID t = k) df)
       \<and> Monetary r = sum_list (map OrderValue (filter (\<lambda>t. CustomerID t = k) df))"
      by (simp add: agg_group_def group_rows_def)
  qed
qed

theorem rfm_df_one_record_per_customer_witness:
  "rfm_df [\<lparr>CustomerID = 2::nat, OrderDate = 5 * ns_per_day, OrderID = 10, OrderValue = 7\<rparr>,
           \<lparr>CustomerID = 1, OrderDate = 3 * ns_per_day, OrderID = 11, OrderValue = 2\<rparr>,
           \<lparr>CustomerID = 2, OrderDate = 4 * ns_per_day + 5, OrderID = 12, OrderValue = 1.5\<rparr>]
   = [(1, \<lparr>Recency = 3, Frequency = 1, Monetary = 2\<rparr>),
      (2, \<lparr>Recency = 1, Frequency = 2, Monetary = 8.5\<rparr>)]"
  using rfm_df_one_record_per_customer
    [of "[\<lparr>CustomerID = 2::nat, OrderDate = 5 * ns_per_day, OrderID = 10, OrderValue = 7\<rparr>,
          \<lparr>CustomerID = 1, OrderDate = 3 * ns_per_day, OrderID = 11, OrderValue = 2\<rparr>,
          \<lparr>CustomerID = 2, OrderDate = 4 * ns_per_day + 5, OrderID = 12, OrderValue = 1.5\<rparr>]"]
  by (simp add: rfm_df_def group_keys_def group_rows_def agg_group_def snapshot_date_def
        timedelta_days_def days_def ns_per_day_def)

text \<open>
  Claim C4. For every non-empty sequence of transaction records, with the snapshot date
  one day after the latest order date of all records, each customer's Recency is the
  number of whole days from that customer's latest order date to the snapshot date,
  and it is at least 0.
\<close>

theorem rfm_df_recency:
  assumes "df \<noteq> []"
  shows "\<forall>(k, r) \<in> set (rfm_df df).
           Recency r = (Max (OrderDate ` set df) + ns_per_day
                         - Max (OrderDate ` {u \<in> set df. CustomerID u = k})) div ns_per_day
         \<and> 0 \<le> Recency r"
proof (clarify)
  fix k r assume kr: "(k, r) \<in> set (rfm_df df)"
  then have k: "k \<in> CustomerID ` set df"
    using rfm_df_entry by blast
  have eq: "Recency r = (Max (OrderDate ` set df) + ns_per_day
                       - Max (OrderDate ` {u \<in> set df. CustomerID u = k})) div ns_per_day"
    using kr by (rule recency_entry)
  have "0 \<le> Max (OrderDate ` set df) - Max (OrderDate ` {u \<in> set df. CustomerID u = k})"
    using group_max_le[OF k] by simp
  from div_day_ge_1[OF this] have "0 \<le> Recency r"
    unfolding eq by (simp add: algebra_simps)
  with eq show "Recency r = (Max (OrderDate ` set df) + ns_per_day
                         - Max (OrderDate ` {u \<in> set df. CustomerID u = k})) div ns_per_day
         \<and> 0 \<le> Recency r" by simp
qed

theorem rfm_df_recency_witness:
  "[\<lparr>CustomerID = 7::nat, OrderDate = 10 * ns_per_day, OrderID = 1, OrderValue = 20\<rparr>,
    \<lparr>CustomerID = 9, OrderDate = 12 * ns_per_day + 1, OrderID = 2, OrderValue = 5\<rparr>] \<noteq> []
   \<and> map (\<lambda>(k, r). (k, Recency r))
        (rfm_df [\<lparr>CustomerID = 7::nat, OrderDate = 10 * ns_per_day, OrderID = 1, OrderValue = 20\<rparr>,
                 \<lparr>CustomerID = 9, OrderDate = 12 * ns_per_day + 1, OrderID = 2, OrderValue = 5\<rparr>])
       = [(7, 3), (9, 1)]"
  using rfm_df_recency
    [of "[\<lparr>CustomerID = 7::nat, OrderDate = 10 * ns_per_day, OrderID = 1, OrderValue = 20\<rparr>,
          \<lparr>CustomerID = 9, OrderDate = 12 * ns_per_day + 1, OrderID = 2, OrderValue = 5\<rparr>]"]
  by (simp add: rfm_df_def group_keys_def group_rows_def agg_group_def snapshot_date_def
        timedelta_days_def days_def ns_per_day_def)

text \<open>
  Claim C9. For every non-empty sequence of transaction records, every customer's
  Recency is at least one day, and a customer who placed the latest order of all has
  Recency exactly 1.
\<close>

theorem rfm_df_recency_positive:
  assumes "df \<noteq> []"
  shows "(\<forall>(k, r) \<in> set (rfm_df df). 1 \<le> Recency r)
       \<and> (\<forall>t \<in> set df. OrderDate t = Max (OrderDate ` set df) \<longrightarrow>
             map_option Recency (map_of (rfm_df df) (CustomerID t)) = Some 1)"
proof (intro conjI ballI impI)
  fix x assume x: "x \<in> set (rfm_df df)"
  obtain k r where xkr: "x = (k, r)" by (cases x)
  from x have kr: "(k, r) \<in> set (rfm_df df)" by (simp add: xkr)
  then have k: "k \<in> CustomerID ` set df"
    using rfm_df_entry by blast
  have "0 \<le> Max (OrderDate ` set df) - Max (OrderDate ` {u \<in> set df. CustomerID u = k})"
    using group_max_le[OF k] by simp
  from div_day_ge_1[OF this] have "1 \<le> Recency r"
    unfolding recency_entry[OF kr] by (simp add: algebra_simps)
  then show "case x of (k, r) \<Rightarrow> 1 \<le> Recency r" by (simp add: xkr)
next
  fix t assume t: "t \<in> set df" and top: "OrderDate t = Max (OrderDate ` set df)"
  let ?k = "CustomerID t"
  have "?k \<in> set (map fst (rfm_df df))"
    using t by (simp only: map_fst_rfm_df set_group_keys) simp
  then obtain r where kr: "(?k, r) \<in> set (rfm_df df)" by auto
  have "distinct (map fst (rfm_df df))"
    by (simp only: map_fst_rfm_df distinct_group_keys)
  with kr have look: "map_of (rfm_df df) ?k = Some r" by simp
  have k: "?k \<in> CustomerID ` set df" using t by simp
  have "OrderDate t \<in> OrderDate ` {u \<in> set df. CustomerID u = ?k}" using t by simp
  then have "OrderDate t \<le> Max (OrderDate ` {u \<in> set df. CustomerID u = ?k})" by simp
  with group_max_le[OF k] top
  have "Max (OrderDate ` {u \<in> set df. CustomerID u = ?k}) = Max (OrderDate ` set df)"
    by simp
  then have "Recency r = 1"
    unfolding recency_entry[OF kr] using ns_per_day_pos by simp
  with look show "map_option Recency (map_of (rfm_df df) ?k) = Some 1" by simp
qed

theorem rfm_df_recency_positive_witness:
  "[\<lparr>CustomerID = 4::nat, OrderDate = 0, OrderID = 1, OrderValue = 1\<rparr>,
    \<lparr>CustomerID = 3, OrderDate = 2 * ns_per_day - 1, OrderID = 2, OrderValue = 1\<rparr>,
    \<lparr>CustomerID = 4, OrderDate = ns_per_day, OrderID = 3, OrderValue = 1\<rparr>] \<noteq> []
   \<and> map (\<lambda>(k, r). (k, Recency r))
        (rfm_df [\<lparr>CustomerID = 4::nat, OrderDate = 0, OrderID = 1, OrderValue = 1\<rparr>,
                 \<lparr>CustomerID = 3, OrderDate = 2 * ns_per_day - 1, OrderID = 2, OrderValue = 1\<rparr>,
                 \<lparr>CustomerID = 4, OrderDate = ns_per_day, OrderID = 3, OrderValue = 1\<rparr>])
       = [(3, 1), (4, 1)]"
  using rfm_df_recency_positive
    [of "[\<lparr>CustomerID = 4::nat, OrderDate = 0, OrderID = 1, OrderValue = 1\<rparr>,
          \<lparr>CustomerID = 3, OrderDate = 2 * ns_per_day - 1, OrderID = 2, OrderValue = 1\<rparr>,
          \<lparr>CustomerID = 4, OrderDate = ns_per_day, OrderID = 3, OrderValue = 1\<rparr>]"]
  by (simp add: rfm_df_def group_keys_def group_rows_def agg_group_def snapshot_date_def
        timedelta_days_def days_def ns_per_day_def)

section \<open>Properties of the risk tier\<close>

text \<open>
  Claim C2. For every churn probability \<open>p\<close> between 0 and 1 the tier is
  \<open>High Risk\<close> exactly when \<open>p > 0.75\<close>, \<open>Medium Risk\<close> exactly when
  \<open>0.50 < p \<le> 0.75\<close> and \<open>Low Risk\<close> exactly when \<open>p \<le> 0.50\<close>. At the
  boundaries: 0.75 is Medium, 0.751 is High and 0.50 is Low.
\<close>

theorem assign_risk_tier_thresholds:
  assumes "0 \<le> p" and "p \<le> 1"
  shows "(assign_risk_tier p = ''High Risk'' \<longleftrightarrow> p > 0.75)
       \<and> (assign_risk_tier p = ''Medium Risk'' \<longleftrightarrow> 0.50 < p \<and> p \<le> 0.75)
       \<and> (assign_risk_tier p = ''Low Risk'' \<longleftrightarrow> p \<le> 0.50)
       \<and> assign_risk_tier 0.75 = ''Medium Risk''
       \<and> assign_risk_tier 0.751 = ''High Risk''
       \<and> assign_risk_tier 0.50 = ''Low Risk''"
  by (simp add: assign_risk_tier_def)

theorem assign_risk_tier_thresholds_witness:
  "(0::real) \<le> 0.75 \<and> (0.75::real) \<le> 1
   \<and> assign_risk_tier 0.75 = ''Medium Risk''
   \<and> assign_risk_tier 0.75 \<noteq> ''High Risk''
   \<and> assign_risk_tier 0.75 \<noteq> ''Low Risk''"
  using assign_risk_tier_thresholds [of "0.75"] by simp

section \<open>Properties of the churn cleaner\<close>

lemma dropna_map_Some: "dropna (map Some xs) = xs"
  by (induction xs) (simp_all add: dropna_def List.map_filter_def)

lemma dropna_coerced:
  "dropna (map (to_numeric parse) col) = List.map_filter (to_numeric parse) col"
  by (induction col) (simp_all add: dropna_def List.map_filter_def split: option.splits)

lemma median_skips_missing: "median col = median (map Some (dropna col))"
  by (simp add: median_def dropna_map_Some)

lemma coerce_all_fail:
  "\<forall>c \<in> set col. to_numeric parse c = None \<Longrightarrow>
     map (to_numeric parse) col = replicate (length col) None"
  by (induction col) simp_all

lemma dropna_replicate_None: "dropna (replicate n None) = []"
  by (induction n) (simp_all add: dropna_def List.map_filter_def)

lemmas total_charges_defs =
  clean_TotalCharges_def median_total_charges_def median_def dropna_def
  List.map_filter_simps fillna_def to_numeric_def Let_def

text \<open>
  Under Copy-on-Write the cleaned column is the coerced column, whatever the median.
\<close>

lemma clean_TotalCharges_copy_on_write:
  "clean_TotalCharges True parse col = map (to_numeric parse) col"
  by (simp add: clean_TotalCharges_def)

text \<open>
  Without Copy-on-Write the fill reaches the frame: each value that fails coercion is
  replaced by the median of the values that coerced, and a value that coerced is kept.
\<close>

lemma clean_TotalCharges_fill_in_frame:
  "(\<forall>i < length col.
       to_numeric parse (col ! i) = None \<longrightarrow>
         clean_TotalCharges False parse col ! i
           = median (map Some (List.map_filter (to_numeric parse) col)))
   \<and> (\<forall>i < length col. \<forall>x.
       to_numeric parse (col ! i) = Some x \<longrightarrow>
         clean_TotalCharges False parse col ! i = Some x)
   \<and> length (clean_TotalCharges False parse col) = length col"
proof (intro conjI)
  have med: "median_total_charges parse col
               = median (map Some (List.map_filter (to_numeric parse) col))"
    unfolding median_total_charges_def
    by (subst median_skips_missing) (simp only: dropna_coerced)
  show "\<forall>i < length col.
       to_numeric parse (col ! i) = None \<longrightarrow>
         clean_TotalCharges False parse col ! i
           = median (map Some (List.map_filter (to_numeric parse) col))"
    by (simp add: clean_TotalCharges_def fillna_def med)
  show "\<forall>i < length col. \<forall>x.
       to_numeric parse (col ! i) = Some x \<longrightarrow>
         clean_TotalCharges False parse col ! i = Some x"
    by (simp add: clean_TotalCharges_def fillna_def)
  show "length (clean_TotalCharges False parse col) = length col"
    by (simp add: clean_TotalCharges_def fillna_def)
qed

text \<open>
  Claim C5. The cell means to replace each \<^verbatim>\<open>TotalCharges\<close> value that fails coercion
  by the median of the values that coerced (its comment says so), and for the column
  \<open>["", "10", "20", "30"]\<close> that median is 20, in whatever order the values stand
  (with a fourth value 45 it is 25, the mean of the two middle values).
  Whether the blank becomes 20 depends on the pandas that runs the cell. Without
  Copy-on-Write it does. Under Copy-on-Write the chained in-place fill changes a
  temporary and the blank stays missing in the frame, against the claim. The reader of
  text is any reader that takes the empty text for no number and reads \<open>10\<close>,
  \<open>20\<close> and \<open>30\<close> as these numbers.
\<close>

theorem clean_TotalCharges_chained_fill:
  assumes "parse '''' = None"
    and "parse ''10'' = Some 10" and "parse ''20'' = Some 20" and "parse ''30'' = Some 30"
  shows "median_total_charges parse [Str '''', Str ''10'', Str ''20'', Str ''30''] = Some 20
       \<and> median_total_charges parse [Str ''30'', Str '''', Str ''10'', Str ''20''] = Some 20
       \<and> median_total_charges parse [Str ''30'', Num 45, Str '''', Str ''10'', Str ''20''] = Some 25
       \<and> clean_TotalCharges True parse [Str '''', Str ''10'', Str ''20'', Str ''30'']
           = [None, Some 10, Some 20, Some 30]
       \<and> clean_TotalCharges False parse [Str '''', Str ''10'', Str ''20'', Str ''30'']
           = [Some 20, Some 10, Some 20, Some 30]"
  using assms by (simp add: total_charges_defs)

theorem clean_TotalCharges_chained_fill_witness:
  "map_of [(''10'', 10::real), (''20'', 20), (''30'', 30)] '''' = None
   \<and> map_of [(''10'', 10::real), (''20'', 20), (''30'', 30)] ''10'' = Some 10
   \<and> map_of [(''10'', 10::real), (''20'', 20), (''30'', 30)] ''20'' = Some 20
   \<and> map_of [(''10'', 10::real), (''20'', 20), (''30'', 30)] ''30'' = Some 30
   \<and> clean_TotalCharges True (map_of [(''10'', 10::real), (''20'', 20), (''30'', 30)])
        [Str '''', Str ''10'', Str ''20'', Str ''30'']
       = [None, Some 10, Some 20, Some 30]
   \<and> clean_TotalCharges False (map_of [(''10'', 10::real), (''20'', 20), (''30'', 30)])
        [Str '''', Str ''10'', Str ''20'', Str ''30'']
       = [Some 20, Some 10, Some 20, Some 30]"
proof -
  have a: "map_of [(''10'', 10::real), (''20'', 20), (''30'', 30)] '''' = None"
    and b: "map_of [(''10'', 10::real), (''20'', 20), (''30'', 30)] ''10'' = Some 10"
    and c: "map_of [(''10'', 10::real), (''20'', 20), (''30'', 30)] ''20'' = Some 20"
    and d: "map_of [(''10'', 10::real), (''20'', 20), (''30'', 30)] ''30'' = Some 30"
    by simp_all
  from clean_TotalCharges_chained_fill [OF a b c d] a b c d show ?thesis
    by blast
qed

text \<open>
  Claim C10. If every value of the \<^verbatim>\<open>TotalCharges\<close> column fails coercion, the
  median is the missing value, the fill leaves every \<^verbatim>\<open>TotalCharges\<close> value missing,
  and the cleaning cell still returns its frame (none of its statements has a raising
  branch): the cleaned \<^verbatim>\<open>TotalCharges\<close> column is all missing and the other columns
  are produced as usual. This holds with and without Copy-on-Write.
\<close>

theorem clean_all_coercions_fail:
  assumes "\<forall>c \<in> set (TotalCharges df). to_numeric parse c = None"
  shows "median_total_charges parse (TotalCharges df) = None
       \<and> clean copy_on_write parse df =
           \<lparr> TotalCharges_clean = replicate (length (TotalCharges df)) None,
             Churn_clean = map churn_flag (Churn df),
             features_clean = features df \<rparr>"
proof -
  have m: "map (to_numeric parse) (TotalCharges df)
             = replicate (length (TotalCharges df)) None"
    using assms by (rule coerce_all_fail)
  have med: "median_total_charges parse (TotalCharges df) = None"
    by (simp add: median_total_charges_def median_def m dropna_replicate_None)
  have "clean_TotalCharges copy_on_write parse (TotalCharges df)
          = replicate (length (TotalCharges df)) None"
    by (simp add: clean_TotalCharges_def med m fillna_def Let_def)
  with med show ?thesis
    by (simp add: clean_def clean_Churn_def)
qed

theorem clean_all_coercions_fail_witness:
  "list_all (\<lambda>c. to_numeric (map_of [(''10'', 10::real)]) c = None)
      [Str '' '', NaN, Str ''n/a'']
   \<and> clean False (map_of [(''10'', 10::real)])
        \<lparr> customerID = [Str ''A'', Str ''B'', Str ''C''],
          TotalCharges = [Str '' '', NaN, Str ''n/a''],
          Churn = [Str ''Yes'', Str ''No'', Str ''Yes''],
          features = () \<rparr>
       = \<lparr> TotalCharges_clean = [None, None, None],
           Churn_clean = [1, 0, 1],
           features_clean = () \<rparr>
   \<and> clean True (map_of [(''10'', 10::real)])
        \<lparr> customerID = [Str ''A'', Str ''B'', Str ''C''],
          TotalCharges = [Str '' '', NaN, Str ''n/a''],
          Churn = [Str ''Yes'', Str ''No'', Str ''Yes''],
          features = () \<rparr>
       = \<lparr> TotalCharges_clean = [None, None, None],
           Churn_clean = [1, 0, 1],
           features_clean = () \<rparr>"
proof -
  have h: "\<forall>c \<in> set [Str '' '', NaN, Str ''n/a''].
             to_numeric (map_of [(''10'', 10::real)]) c = None"
    by (simp add: to_numeric_def)
  have "\<forall>c \<in> set (TotalCharges
          \<lparr> customerID = [Str ''A'', Str ''B'', Str ''C''],
            TotalCharges = [Str '' '', NaN, Str ''n/a''],
            Churn = [Str ''Yes'', Str ''No'', Str ''Yes''],
            features = () \<rparr>). to_numeric (map_of [(''10'', 10::real)]) c = None"
    using h by simp
  from clean_all_coercions_fail [OF this, of False] clean_all_coercions_fail [OF this, of True] h
  show ?thesis
    by (simp add: churn_flag_def list_all_iff)
qed

text \<open>
  Claim C7. For every row, the cleaner maps \<^verbatim>\<open>Churn\<close> to 1 exactly when the cell is
  the text \<open>Yes\<close>, and to 0 for every other cell: a missing value, a number, or any
  other text (another spelling included).
\<close>

theorem clean_Churn_exact_Yes:
  "length (clean_Churn col) = length col
   \<and> (\<forall>i < length col.
         (clean_Churn col ! i = 1 \<longleftrightarrow> col ! i = Str ''Yes'')
       \<and> (clean_Churn col ! i = 0 \<longleftrightarrow> col ! i \<noteq> Str ''Yes''))
   \<and> clean_Churn [Str ''Yes'', Str ''No'', NaN, Str ''yes'', Str ''YES'', Str ''Yes '', Num 1]
       = [1, 0, 0, 0, 0, 0, 0]"
  by (simp add: clean_Churn_def churn_flag_def)

theorem clean_Churn_exact_Yes_witness:
  "(1::nat) < length [Str ''Yes'', Str ''Maybe'']
   \<and> clean_Churn [Str ''Yes'', Str ''Maybe''] ! 1 = 0
   \<and> clean_Churn [Str ''Yes'', Str ''Maybe''] ! 0 = 1"
  using clean_Churn_exact_Yes [of "[Str ''Yes'', Str ''Maybe'']"]
  by (simp add: clean_Churn_def churn_flag_def)

section \<open>Properties of the scaling\<close>

lemma expm1_log1p: "- 1 < x \<Longrightarrow> expm1 (log1p x) = x"
  by (simp add: expm1_def log1p_def)

lemma destandardize_standardize:
  "std col \<noteq> 0 \<Longrightarrow> destandardize col (standardize col x) = x"
  by (simp add: destandardize_def standardize_def scale_def)

lemma std_zero_imp_constant:
  assumes "std xs = 0" and "x \<in> set xs"
  shows "x = mean xs"
proof -
  have n: "0 < real (length xs)" using assms(2) by (cases xs) auto
  from assms(1) have "var xs = 0" by (simp add: std_def)
  then have "sum_list (map (\<lambda>x. (x - mean xs)\<^sup>2) xs) = 0"
    using n by (simp add: var_def mean_def)
  moreover have "\<And>y. y \<in> set (map (\<lambda>x. (x - mean xs)\<^sup>2) xs) \<Longrightarrow> 0 \<le> y"
    by auto
  ultimately have "\<forall>y \<in> set (map (\<lambda>x. (x - mean xs)\<^sup>2) xs). y = 0"
    by (simp only: sum_list_nonneg_eq_0_iff)
  with assms(2) have "(x - mean xs)\<^sup>2 = 0" by simp
  then show ?thesis by simp
qed

lemma std_nonzero:
  assumes "x \<in> set xs" and "y \<in> set xs" and "x \<noteq> y"
  shows "std xs \<noteq> 0"
  using assms std_zero_imp_constant by metis

text \<open>
  Claim C6. For every set of RFM records in which each scaled column has a nonzero
  standard deviation, the inverse transform (multiply by the column's standard
  deviation, add the column's mean, then \<^verbatim>\<open>expm1\<close>) applied to every scaled record
  gives back the original record. The statement is exact over the reals, and is made
  where \<^verbatim>\<open>log1p\<close> is a number: day counts from 0 and order totals above \<open>-1\<close>
  (the RFM fields are non-negative).
\<close>

theorem scaling_round_trip:
  assumes dom: "\<forall>(k, r) \<in> set df. 0 \<le> Recency r \<and> - 1 < Monetary r"
    and sR: "std (map R (rfm_log df)) \<noteq> 0"
    and sF: "std (map F (rfm_log df)) \<noteq> 0"
    and sM: "std (map M (rfm_log df)) \<noteq> 0"
  shows "map (spec_inverse (rfm_log df)) (rfm_scaled df) = rfm_values df"
proof -
  have undo: "map (spec_inverse (rfm_log df)) (rfm_scaled df)
        = map (\<lambda>v. \<lparr> R = expm1 (R v), F = expm1 (F v), M = expm1 (M v) \<rparr>) (rfm_log df)"
    by (simp add: rfm_scaled_def fit_transform_def spec_inverse_def
          destandardize_standardize sR sF sM)
  have "map (\<lambda>v. \<lparr> R = expm1 (R v), F = expm1 (F v), M = expm1 (M v) \<rparr>) (rfm_log df)
        = rfm_values df"
    using dom by (auto simp: rfm_log_def rfm_values_def expm1_log1p)
  with undo show ?thesis by simp
qed

theorem scaling_round_trip_witness:
  "list_all (\<lambda>(k, r). 0 \<le> Recency r \<and> - 1 < Monetary r)
      [(1::nat, \<lparr>Recency = 1, Frequency = 1, Monetary = 0\<rparr>),
       (2, \<lparr>Recency = 3, Frequency = 2, Monetary = 1\<rparr>)]
   \<and> std (map R (rfm_log [(1::nat, \<lparr>Recency = 1, Frequency = 1, Monetary = 0\<rparr>),
                            (2, \<lparr>Recency = 3, Frequency = 2, Monetary = 1\<rparr>)])) \<noteq> 0
   \<and> std (map F (rfm_log [(1::nat, \<lparr>Recency = 1, Frequency = 1, Monetary = 0\<rparr>),
                            (2, \<lparr>Recency = 3, Frequency = 2, Monetary = 1\<rparr>)])) \<noteq> 0
   \<and> std (map M (rfm_log [(1::nat, \<lparr>Recency = 1, Frequency = 1, Monetary = 0\<rparr>),
                            (2, \<lparr>Recency = 3, Frequency = 2, Monetary = 1\<rparr>)])) \<noteq> 0
   \<and> map (spec_inverse (rfm_log [(1::nat, \<lparr>Recency = 1, Frequency = 1, Monetary = 0\<rparr>),
                                   (2, \<lparr>Recency = 3, Frequency = 2, Monetary = 1\<rparr>)]))
          (rfm_scaled [(1::nat, \<lparr>Recency = 1, Frequency = 1, Monetary = 0\<rparr>),
                       (2, \<lparr>Recency = 3, Frequency = 2, Monetary = 1\<rparr>)])
       = [\<lparr>R = 1, F = 1, M = 0\<rparr>, \<lparr>R = 3, F = 2, M = 1\<rparr>]"
proof -
  let ?df = "[(1::nat, \<lparr>Recency = 1, Frequency = 1, Monetary = 0\<rparr>),
              (2, \<lparr>Recency = 3, Frequency = 2, Monetary = 1\<rparr>)]"
  have h0: "\<forall>(k, r) \<in> set ?df. 0 \<le> Recency r \<and> - 1 < Monetary r" by simp
  have hR: "std (map R (rfm_log ?df)) \<noteq> 0"
    by (rule std_nonzero [of "ln 2" _ "ln 4"]) (simp_all add: rfm_log_def rfm_values_def log1p_def)
  have hF: "std (map F (rfm_log ?df)) \<noteq> 0"
    by (rule std_nonzero [of "ln 2" _ "ln 3"]) (simp_all add: rfm_log_def rfm_values_def log1p_def)
  have hM: "std (map M (rfm_log ?df)) \<noteq> 0"
    by (rule std_nonzero [of "ln 1" _ "ln 2"]) (simp_all add: rfm_log_def rfm_values_def log1p_def)
  from scaling_round_trip [OF h0 hR hF hM]
  have "map (spec_inverse (rfm_log ?df)) (rfm_scaled ?df)
          = [\<lparr>R = 1, F = 1, M = 0\<rparr>, \<lparr>R = 3, F = 2, M = 1\<rparr>]"
    by (simp add: rfm_values_def)
  with h0 hR hF hM show ?thesis by (simp only: list_all_iff) blast
qed

section \<open>Properties of the segment labeler\<close>

lemma sort_values_mset:
  "is_sort_values sv \<Longrightarrow> mset (sv col a df) = mset df"
  by (simp add: is_sort_values_def)

lemma sort_values_ascending:
  "is_sort_values sv \<Longrightarrow> sorted (map (\<lambda>p. col (snd p)) (sv col True df))"
  unfolding is_sort_values_def by (metis (full_types))

lemma sort_values_descending:
  "is_sort_values sv \<Longrightarrow> sorted (map (\<lambda>p. col (snd p)) (rev (sv col False df)))"
  unfolding is_sort_values_def by (metis (full_types))

lemma is_sort_values_stable: "is_sort_values stable_sort_values"
  by (simp add: is_sort_values_def stable_sort_values_def)

lemma length_sort_values:
  "is_sort_values sv \<Longrightarrow> length (sv col a df) = length df"
  using sort_values_mset mset_eq_length by blast

lemma set_sort_values:
  "is_sort_values sv \<Longrightarrow> set (sv col a df) = set df"
  using sort_values_mset mset_eq_setD by blast

lemma distinct_fst_sort_values:
  assumes "is_sort_values sv"
  shows "distinct (map fst (sv col a df)) = distinct (map fst df)"
proof -
  have "mset (map fst (sv col a df)) = mset (map fst df)"
    using sort_values_mset [OF assms, of col a df] by simp
  then show ?thesis by (rule mset_eq_imp_distinct_iff)
qed

lemma index_at_fail: "\<not> i < length df \<Longrightarrow> index_at df i = Inl IndexError"
  by (simp add: index_at_def)

lemma segment_map_short:
  assumes "is_sort_values sv" and "length cp < 4"
  shows "segment_map sv cp = Inl IndexError"
proof -
  have "\<not> 3 < length (sv Frequency_mean False cp)"
    using assms by (simp add: length_sort_values)
  then have "index_at (sv Frequency_mean False cp) 3 = Inl IndexError"
    by (rule index_at_fail)
  then show ?thesis
    by (simp add: segment_map_def index_at_def split: sum.splits)
qed

lemma segment_map_long:
  assumes "is_sort_values sv" and "4 \<le> length cp"
  shows "segment_map sv cp =
           Inr (Map.empty(fst (sv Recency_mean True cp ! 0) \<mapsto> ''Champions'',
                          fst (sv Recency_mean True cp ! 1) \<mapsto> ''Loyal Customers'',
                          fst (sv Frequency_mean False cp ! 2) \<mapsto> ''At-Risk'',
                          fst (sv Frequency_mean False cp ! 3) \<mapsto> ''Hibernating''))"
  using assms by (auto simp: segment_map_def index_at_def length_sort_values)

lemma nth_fst_in:
  assumes "is_sort_values sv" and "i < length cp"
  shows "fst (sv col a cp ! i) \<in> fst ` set cp"
proof -
  have "sv col a cp ! i \<in> set (sv col a cp)"
    using assms by (simp add: length_sort_values)
  then show ?thesis
    by (simp add: set_sort_values [OF assms(1)])
qed

lemma nth_fst_neq:
  assumes "is_sort_values sv" and "distinct (map fst cp)"
    and "i < length cp" and "j < length cp" and "i \<noteq> j"
  shows "fst (sv col a cp ! i) \<noteq> fst (sv col a cp ! j)"
proof -
  have d: "distinct (map fst (sv col a cp))"
    using assms(2) by (simp only: distinct_fst_sort_values [OF assms(1)])
  from nth_eq_iff_index_eq [OF d, of i j] assms(3-5)
  show ?thesis by (simp add: length_sort_values [OF assms(1)])
qed

lemma four_cover:
  assumes fin: "finite S" and card: "card S = n" and n: "4 \<le> n"
    and sub: "{a, b, c, d} \<subseteq> S" and ab: "a \<noteq> b" and cd: "c \<noteq> d"
  shows "S \<subseteq> {a, b, c, d} \<longleftrightarrow> n = 4 \<and> {a, b} \<inter> {c, d} = {}"
proof
  assume "S \<subseteq> {a, b, c, d}"
  with sub have eq: "S = {a, b, c, d}" by blast
  have le: "card {a, b, c, d} \<le> 4" by (simp add: card_insert_if)
  with eq card n have c4: "card {a, b, c, d} = 4" and n4: "n = 4" by simp_all
  have "{a, b} \<inter> {c, d} = {}"
  proof (rule ccontr)
    assume "{a, b} \<inter> {c, d} \<noteq> {}"
    then have "a = c \<or> a = d \<or> b = c \<or> b = d" by auto
    then have "card {a, b, c, d} \<le> 3"
      by (auto simp: card_insert_if)
    with c4 show False by simp
  qed
  with n4 show "n = 4 \<and> {a, b} \<inter> {c, d} = {}" by simp
next
  assume h: "n = 4 \<and> {a, b} \<inter> {c, d} = {}"
  then have "card {a, b, c, d} = 4" using ab cd by auto
  with h card have "card {a, b, c, d} = card S" by simp
  with sub fin have "{a, b, c, d} = S" by (simp add: card_subset_eq)
  then show "S \<subseteq> {a, b, c, d}" by simp
qed

text \<open>
  With distinct keys there is one sorted arrangement only, so on such a frame every
  sort of the kind \<open>is_sort_values\<close> gives the result of the stable one.
\<close>

lemma sorted_arrangement_unique:
  assumes perm: "mset ys = mset xs" and srt: "sorted (map f ys)"
    and dist: "distinct (map f xs)"
  shows "ys = sort_key f xs"
proof -
  have my: "mset (map f ys) = mset (map f xs)" using perm by simp
  have ms: "mset (map f (sort_key f xs)) = mset (map f xs)" by simp
  have dy: "distinct (map f ys)"
    using mset_eq_imp_distinct_iff [OF my] dist by simp
  have ds: "distinct (map f (sort_key f xs))"
    using mset_eq_imp_distinct_iff [OF ms] dist by simp
  have "set (map f ys) = set (map f (sort_key f xs))"
    using mset_eq_setD [OF my] mset_eq_setD [OF ms] by simp
  with srt dy ds have eq: "map f ys = map f (sort_key f xs)"
    by (intro sorted_distinct_set_unique) simp_all
  have "inj_on f (set xs)" using dist by (simp add: distinct_map)
  moreover have "set ys = set xs" using perm by (rule mset_eq_setD)
  ultimately have "inj_on f (set ys \<union> set (sort_key f xs))" by simp
  with eq show ?thesis by (simp add: inj_on_map_eq_map)
qed

lemma sort_values_distinct_keys:
  assumes "is_sort_values sv" and "distinct (map (\<lambda>p. col (snd p)) df)"
  shows "sv col a df = stable_sort_values col a df"
proof (cases a)
  case True
  have "sv col True df = sort_key (\<lambda>p. col (snd p)) df"
    using sort_values_mset [OF assms(1)] sort_values_ascending [OF assms(1)] assms(2)
    by (rule sorted_arrangement_unique)
  with True show ?thesis by (simp add: stable_sort_values_def)
next
  case False
  have m: "mset (rev (sv col False df)) = mset (rev df)"
    using sort_values_mset [OF assms(1), of col False df] by simp
  have d: "distinct (map (\<lambda>p. col (snd p)) (rev df))"
    using assms(2) by (simp add: rev_map [symmetric])
  have "rev (sv col False df) = sort_key (\<lambda>p. col (snd p)) (rev df)"
    using m sort_values_descending [OF assms(1)] d
    by (rule sorted_arrangement_unique)
  then have "sv col False df = rev (sort_key (\<lambda>p. col (snd p)) (rev df))"
    by (metis rev_rev_ident)
  with False show ?thesis by (simp add: stable_sort_values_def)
qed

text \<open>
  Claim C1, as the notebook has it. For a cluster profile with distinct cluster ids,
  and whatever order the library's sort gives to equal means: with fewer than four
  clusters building the map raises \<^verbatim>\<open>IndexError\<close>. With four or more it raises
  nothing, and the map has exactly the four ranked clusters as keys: the clusters at
  rank indices 2 and 3 by mean Frequency descending are \<open>At-Risk\<close> and
  \<open>Hibernating\<close>; the two lowest by mean Recency are \<open>Champions\<close> and
  \<open>Loyal Customers\<close> unless they are also at Frequency rank 2 or 3, in which case
  the Frequency label, written later, replaces the Recency label. So a cluster id has
  at most one label. Every cluster is labeled exactly when there are four clusters and
  the two lowest by mean Recency are other clusters than those at Frequency ranks 2 and
  3; otherwise some cluster has no label, and no error is raised.
\<close>

theorem segment_map_labels:
  assumes "is_sort_values sv" and "distinct (map fst cp)"
  shows "(length cp < 4 \<longrightarrow> segment_map sv cp = Inl IndexError)
       \<and> (4 \<le> length cp \<longrightarrow>
            (let k0 = fst (sv Recency_mean True cp ! 0);
                 k1 = fst (sv Recency_mean True cp ! 1);
                 k2 = fst (sv Frequency_mean False cp ! 2);
                 k3 = fst (sv Frequency_mean False cp ! 3)
             in \<exists>m. segment_map sv cp = Inr m
                  \<and> dom m = {k0, k1, k2, k3}
                  \<and> dom m \<subseteq> fst ` set cp
                  \<and> m k2 = Some ''At-Risk''
                  \<and> m k3 = Some ''Hibernating''
                  \<and> (k0 \<notin> {k2, k3} \<longrightarrow> m k0 = Some ''Champions'')
                  \<and> (k1 \<notin> {k2, k3} \<longrightarrow> m k1 = Some ''Loyal Customers'')
                  \<and> ((\<forall>c \<in> fst ` set cp. m c \<noteq> None) \<longleftrightarrow>
                       length cp = 4 \<and> {k0, k1} \<inter> {k2, k3} = {})))"
proof (intro conjI impI)
  assume "length cp < 4"
  with assms(1) show "segment_map sv cp = Inl IndexError" by (rule segment_map_short)
next
  assume len: "4 \<le> length cp"
  let ?k0 = "fst (sv Recency_mean True cp ! 0)"
  let ?k1 = "fst (sv Recency_mean True cp ! 1)"
  let ?k2 = "fst (sv Frequency_mean False cp ! 2)"
  let ?k3 = "fst (sv Frequency_mean False cp ! 3)"
  let ?m = "Map.empty(?k0 \<mapsto> ''Champions'', ?k1 \<mapsto> ''Loyal Customers'',
                      ?k2 \<mapsto> ''At-Risk'', ?k3 \<mapsto> ''Hibernating'')"
  have sm: "segment_map sv cp = Inr ?m" using assms(1) len by (rule segment_map_long)
  have dom: "dom ?m = {?k0, ?k1, ?k2, ?k3}" by auto
  have l0: "0 < length cp" and l1: "1 < length cp"
    and l2: "2 < length cp" and l3: "3 < length cp"
    using len by auto
  have sub: "{?k0, ?k1, ?k2, ?k3} \<subseteq> fst ` set cp"
    using nth_fst_in [OF assms(1) l0] nth_fst_in [OF assms(1) l1]
      nth_fst_in [OF assms(1) l2] nth_fst_in [OF assms(1) l3]
    by simp
  have k01: "?k0 \<noteq> ?k1" using assms l0 l1 by (rule nth_fst_neq) simp
  have k23: "?k2 \<noteq> ?k3" using assms l2 l3 by (rule nth_fst_neq) simp
  have card: "card (fst ` set cp) = length cp"
    using assms(2) by (metis distinct_card set_map length_map)
  have "(\<forall>c \<in> fst ` set cp. ?m c \<noteq> None) \<longleftrightarrow> fst ` set cp \<subseteq> dom ?m"
    by (simp only: subset_iff domIff) blast
  also have "\<dots> \<longleftrightarrow> fst ` set cp \<subseteq> {?k0, ?k1, ?k2, ?k3}"
    by (simp only: dom)
  also have "\<dots> \<longleftrightarrow> length cp = 4 \<and> {?k0, ?k1} \<inter> {?k2, ?k3} = {}"
    by (rule four_cover [OF _ card len sub k01 k23]) simp
  finally have iff: "(\<forall>c \<in> fst ` set cp. ?m c \<noteq> None) \<longleftrightarrow>
                       length cp = 4 \<and> {?k0, ?k1} \<inter> {?k2, ?k3} = {}" .
  have dsub: "dom ?m \<subseteq> fst ` set cp" using sub by (simp only: dom)
  have a2: "?m ?k2 = Some ''At-Risk''" using k23 by simp
  have a3: "?m ?k3 = Some ''Hibernating''" by simp
  have a0: "?k0 \<notin> {?k2, ?k3} \<longrightarrow> ?m ?k0 = Some ''Champions''" using k01 by simp
  have a1: "?k1 \<notin> {?k2, ?k3} \<longrightarrow> ?m ?k1 = Some ''Loyal Customers''" by simp
  from sm dom dsub a2 a3 a0 a1 iff
  have "\<exists>m. segment_map sv cp = Inr m
          \<and> dom m = {?k0, ?k1, ?k2, ?k3}
          \<and> dom m \<subseteq> fst ` set cp
          \<and> m ?k2 = Some ''At-Risk''
          \<and> m ?k3 = Some ''Hibernating''
          \<and> (?k0 \<notin> {?k2, ?k3} \<longrightarrow> m ?k0 = Some ''Champions'')
          \<and> (?k1 \<notin> {?k2, ?k3} \<longrightarrow> m ?k1 = Some ''Loyal Customers'')
          \<and> ((\<forall>c \<in> fst ` set cp. m c \<noteq> None) \<longleftrightarrow>
               length cp = 4 \<and> {?k0, ?k1} \<inter> {?k2, ?k3} = {})"
    by (intro exI [of _ ?m] conjI)
  then show "let k0 = ?k0; k1 = ?k1; k2 = ?k2; k3 = ?k3
             in \<exists>m. segment_map sv cp = Inr m
                  \<and> dom m = {k0, k1, k2, k3}
                  \<and> dom m \<subseteq> fst ` set cp
                  \<and> m k2 = Some ''At-Risk''
                  \<and> m k3 = Some ''Hibernating''
                  \<and> (k0 \<notin> {k2, k3} \<longrightarrow> m k0 = Some ''Champions'')
                  \<and> (k1 \<notin> {k2, k3} \<longrightarrow> m k1 = Some ''Loyal Customers'')
                  \<and> ((\<forall>c \<in> fst ` set cp. m c \<noteq> None) \<longleftrightarrow>
                       length cp = 4 \<and> {k0, k1} \<inter> {k2, k3} = {})"
    by (simp only: Let_def)
qed

theorem segment_map_labels_witness:
  "is_sort_values
     (stable_sort_values ::
        (profile_row \<Rightarrow> real) \<Rightarrow> bool \<Rightarrow> (nat \<times> profile_row) list \<Rightarrow> (nat \<times> profile_row) list)
   \<and> distinct (map fst
     [(0::nat, \<lparr>Recency_mean = 4.5, Frequency_mean = 12.25, Monetary_mean = 900, Monetary_count = 30\<rparr>),
      (1, \<lparr>Recency_mean = 210, Frequency_mean = 1.2, Monetary_mean = 40, Monetary_count = 55\<rparr>),
      (2, \<lparr>Recency_mean = 95.5, Frequency_mean = 2, Monetary_mean = 80, Monetary_count = 70\<rparr>),
      (3, \<lparr>Recency_mean = 30, Frequency_mean = 6.5, Monetary_mean = 410, Monetary_count = 45\<rparr>)])
   \<and> segment_column stable_sort_values
     [(0::nat, \<lparr>Recency_mean = 4.5, Frequency_mean = 12.25, Monetary_mean = 900, Monetary_count = 30\<rparr>),
      (1, \<lparr>Recency_mean = 210, Frequency_mean = 1.2, Monetary_mean = 40, Monetary_count = 55\<rparr>),
      (2, \<lparr>Recency_mean = 95.5, Frequency_mean = 2, Monetary_mean = 80, Monetary_count = 70\<rparr>),
      (3, \<lparr>Recency_mean = 30, Frequency_mean = 6.5, Monetary_mean = 410, Monetary_count = 45\<rparr>)]
     [0, 1, 2, 3]
     = Inr [Some ''Champions'', Some ''Hibernating'', Some ''At-Risk'', Some ''Loyal Customers'']
   \<and> distinct (map fst
     [(0::nat, \<lparr>Recency_mean = 4.5, Frequency_mean = 12.25, Monetary_mean = 900, Monetary_count = 30\<rparr>),
      (1, \<lparr>Recency_mean = 210, Frequency_mean = 1.2, Monetary_mean = 40, Monetary_count = 55\<rparr>),
      (2, \<lparr>Recency_mean = 95.5, Frequency_mean = 2, Monetary_mean = 80, Monetary_count = 70\<rparr>)])
   \<and> segment_column stable_sort_values
     [(0::nat, \<lparr>Recency_mean = 4.5, Frequency_mean = 12.25, Monetary_mean = 900, Monetary_count = 30\<rparr>),
      (1, \<lparr>Recency_mean = 210, Frequency_mean = 1.2, Monetary_mean = 40, Monetary_count = 55\<rparr>),
      (2, \<lparr>Recency_mean = 95.5, Frequency_mean = 2, Monetary_mean = 80, Monetary_count = 70\<rparr>)]
     [0, 1, 2]
     = Inl IndexError"
  using segment_map_labels
    [OF is_sort_values_stable,
     of "[(0::nat, \<lparr>Recency_mean = 4.5, Frequency_mean = 12.25, Monetary_mean = 900, Monetary_count = 30\<rparr>),
      (1, \<lparr>Recency_mean = 210, Frequency_mean = 1.2, Monetary_mean = 40, Monetary_count = 55\<rparr>),
      (2, \<lparr>Recency_mean = 95.5, Frequency_mean = 2, Monetary_mean = 80, Monetary_count = 70\<rparr>),
      (3, \<lparr>Recency_mean = 30, Frequency_mean = 6.5, Monetary_mean = 410, Monetary_count = 45\<rparr>)]"]
    segment_map_labels
    [OF is_sort_values_stable,
     of "[(0::nat, \<lparr>Recency_mean = 4.5, Frequency_mean = 12.25, Monetary_mean = 900, Monetary_count = 30\<rparr>),
      (1, \<lparr>Recency_mean = 210, Frequency_mean = 1.2, Monetary_mean = 40, Monetary_count = 55\<rparr>),
      (2, \<lparr>Recency_mean = 95.5, Frequency_mean = 2, Monetary_mean = 80, Monetary_count = 70\<rparr>)]"]
    is_sort_values_stable
  by (simp add: segment_column_def segment_map_def index_at_def stable_sort_values_def)

text \<open>
  The profile of the counterexample below has distinct means in both columns, so its
  outcome is the same for every sort the library may apply, not only the stable one:
  two clusters stay without a label and nothing is raised.
\<close>

lemma segment_column_unlabeled_for_every_sort:
  assumes "is_sort_values sv"
  shows "segment_column sv
     [(0::nat, \<lparr>Recency_mean = 5, Frequency_mean = 2, Monetary_mean = 100, Monetary_count = 10\<rparr>),
      (1, \<lparr>Recency_mean = 12, Frequency_mean = 1.5, Monetary_mean = 60, Monetary_count = 20\<rparr>),
      (2, \<lparr>Recency_mean = 40, Frequency_mean = 9, Monetary_mean = 800, Monetary_count = 15\<rparr>),
      (3, \<lparr>Recency_mean = 90, Frequency_mean = 6, Monetary_mean = 500, Monetary_count = 25\<rparr>)]
     [0, 1, 2, 3]
   = Inr [Some ''At-Risk'', Some ''Hibernating'', None, None]"
proof -
  let ?P = "[(0::nat, \<lparr>Recency_mean = 5, Frequency_mean = 2, Monetary_mean = 100, Monetary_count = 10\<rparr>),
      (1, \<lparr>Recency_mean = 12, Frequency_mean = 1.5, Monetary_mean = 60, Monetary_count = 20\<rparr>),
      (2, \<lparr>Recency_mean = 40, Frequency_mean = 9, Monetary_mean = 800, Monetary_count = 15\<rparr>),
      (3, \<lparr>Recency_mean = 90, Frequency_mean = 6, Monetary_mean = 500, Monetary_count = 25\<rparr>)]"
  have r: "sv Recency_mean True ?P = stable_sort_values Recency_mean True ?P"
    using assms by (rule sort_values_distinct_keys) simp
  have f: "sv Frequency_mean False ?P = stable_sort_values Frequency_mean False ?P"
    using assms by (rule sort_values_distinct_keys) simp
  show ?thesis
    unfolding segment_column_def segment_map_def r f
    by (simp add: index_at_def stable_sort_values_def)
qed

text \<open>
  The claim as the specification words it (every cluster gets a label, or an error is
  raised) fails on a four-cluster profile with distinct means: the two most recent
  clusters are also the two least frequent ones, so they are relabeled, the other two
  clusters get no label, and nothing is raised.
\<close>

theorem segment_map_unlabeled_counterexample:
  "segment_column stable_sort_values
     [(0::nat, \<lparr>Recency_mean = 5, Frequency_mean = 2, Monetary_mean = 100, Monetary_count = 10\<rparr>),
      (1, \<lparr>Recency_mean = 12, Frequency_mean = 1.5, Monetary_mean = 60, Monetary_count = 20\<rparr>),
      (2, \<lparr>Recency_mean = 40, Frequency_mean = 9, Monetary_mean = 800, Monetary_count = 15\<rparr>),
      (3, \<lparr>Recency_mean = 90, Frequency_mean = 6, Monetary_mean = 500, Monetary_count = 25\<rparr>)]
     [0, 1, 2, 3]
   = Inr [Some ''At-Risk'', Some ''Hibernating'', None, None]"
  by (simp add: segment_column_def segment_map_def index_at_def stable_sort_values_def)

end
